theory Spec2Isabelle
  imports Main "HOL-Library.Sublist"
begin

section \<open>Pod filters of pkg/domain/filters/pods.go\<close>

text \<open>
  \<^verbatim>\<open>GeneratePodFilterFunc(filter, filterValues, r)\<close> switches on the filter name and
  returns either a closure \<^verbatim>\<open>func(*libpod.Pod) bool\<close> or an error. The embedding
  below keeps this shape: the result is a sum, \<open>Inl\<close> the error and \<open>Inr\<close> the
  predicate, and every loop of the Go text is a recursive function that returns where
  the loop returns.
\<close>

subsection \<open>Errors\<close>

text \<open>
  Go errors as values. \<open>ErrNoSuchNetwork\<close> is the sentinel of libpod/define,
  \<open>ErrorString\<close> is what \<^verbatim>\<open>fmt.Errorf\<close> builds from a format without \<^verbatim>\<open>%w\<close>,
  and \<open>WrapError\<close> is an error that wraps another one. \<open>errors_Is\<close> walks the chain
  of wrapped errors as \<^verbatim>\<open>errors.Is\<close> does.
\<close>

datatype go_error =
    ErrNoSuchNetwork
  | ErrorString string
  | WrapError string go_error

fun errors_Is :: "go_error \<Rightarrow> go_error \<Rightarrow> bool" where
  "errors_Is (WrapError msg inner) target =
     (if WrapError msg inner = target then True else errors_Is inner target)"
| "errors_Is err target = (err = target)"

subsection \<open>Strings\<close>

text \<open>
  Strings are byte lists. \<open>ToLower\<close> is \<^verbatim>\<open>strings.ToLower\<close> on ASCII: the bytes
  \<open>A\<close> to \<open>Z\<close> move to \<open>a\<close> to \<open>z\<close> and every other byte stays. The code
  applies it to filter values that hold hex digits only and to pod status names, both
  ASCII.
\<close>

definition toLower_byte :: "char \<Rightarrow> char" where
  "toLower_byte c =
     (let n = (of_char c :: nat) in if 65 \<le> n \<and> n \<le> 90 then char_of (n + 32) else c)"

definition ToLower :: "string \<Rightarrow> string" where
  "ToLower s = map toLower_byte s"

text \<open>\<^verbatim>\<open>strings.HasPrefix(s, prefix)\<close>.\<close>

definition HasPrefix :: "string \<Rightarrow> string \<Rightarrow> bool" where
  "HasPrefix s pre = prefix pre s"

text \<open>
  \<^verbatim>\<open>cutil.StringInSlice(s, sl)\<close> of containers/common: a loop that returns true at
  the first element equal to \<open>s\<close>.
\<close>

fun StringInSlice :: "string \<Rightarrow> string list \<Rightarrow> bool" where
  "StringInSlice s [] = False"
| "StringInSlice s (x # sl) = (if x = s then True else StringInSlice s sl)"

text \<open>
  Modelled from the spec: \<^verbatim>\<open>define.NotHexRegex\<close> is declared in libpod/define, not
  in the file at hand. The spec describes a value that it does not match as one that
  "contains only hex digits, of any length including empty", so the detector matches
  exactly the strings with some byte outside \<open>0-9\<close>, \<open>a-f\<close>, \<open>A-F\<close>.
\<close>

definition is_hex_byte :: "char \<Rightarrow> bool" where
  "is_hex_byte c =
     (let n = (of_char c :: nat)
      in (48 \<le> n \<and> n \<le> 57) \<or> (97 \<le> n \<and> n \<le> 102) \<or> (65 \<le> n \<and> n \<le> 70))"

definition NotHexRegex_MatchString :: "string \<Rightarrow> bool" where
  "NotHexRegex_MatchString s = list_ex (\<lambda>c. \<not> is_hex_byte c) s"

text \<open>
  \<^verbatim>\<open>strconv.Atoi\<close> of the Go standard library, for a 64-bit \<^verbatim>\<open>int\<close>: an optional
  sign, then one or more decimal digits and nothing else; a value outside the range of
  \<^verbatim>\<open>int\<close> is an error as well.
\<close>

definition is_digit_byte :: "char \<Rightarrow> bool" where
  "is_digit_byte c = (let n = (of_char c :: nat) in 48 \<le> n \<and> n \<le> 57)"

fun digits_value :: "string \<Rightarrow> int \<Rightarrow> int option" where
  "digits_value [] acc = Some acc"
| "digits_value (c # cs) acc =
     (if is_digit_byte c then digits_value cs (acc * 10 + (int (of_char c) - 48))
      else None)"

definition Atoi :: "string \<Rightarrow> go_error + int" where
  "Atoi s =
     (let neg = (s \<noteq> [] \<and> hd s = CHR ''-'');
          body = (if s \<noteq> [] \<and> (hd s = CHR ''-'' \<or> hd s = CHR ''+'') then tl s else s)
      in if body = [] then Inl (ErrorString ''invalid syntax'')
         else case digits_value body 0 of
                None \<Rightarrow> Inl (ErrorString ''invalid syntax'')
              | Some n \<Rightarrow>
                  (let v = (if neg then - n else n)
                   in if - (2 ^ 63) \<le> v \<and> v < 2 ^ 63 then Inr v
                      else Inl (ErrorString ''value out of range'')))"

subsection \<open>The entity model\<close>

text \<open>
  The container states of libpod/define. The enumeration is declared outside the file at
  hand; the code names \<open>ContainerStateConfigured\<close> and \<open>ContainerStateStopped\<close> and
  prints every other state with its \<^verbatim>\<open>String()\<close> method, which is a parameter below.
\<close>

datatype ContainerStatus =
    ContainerStateUnknown
  | ContainerStateConfigured
  | ContainerStateCreated
  | ContainerStateRunning
  | ContainerStateStopped
  | ContainerStatePaused
  | ContainerStateExited
  | ContainerStateRemoving
  | ContainerStateStopping

text \<open>
  A container as the filters read it: \<^verbatim>\<open>Name()\<close> and \<^verbatim>\<open>Networks()\<close>, the second
  of which can fail.
\<close>

record Container =
  ctr_Name :: string
  ctr_Networks :: "go_error + string list"

text \<open>
  A pod as the filters read it: one field per accessor, holding what the accessor returns
  when the predicate runs. Accessors of the form \<^verbatim>\<open>(value, error)\<close> are sums.
  \<^verbatim>\<open>Status()\<close> returns a map from container id to state, kept as an association
  list that the loop walks front to back; the creation time is an instant on the integer
  line.
\<close>

record Pod =
  pod_ID :: string
  pod_Name :: string
  pod_Labels :: "string \<rightharpoonup> string"
  pod_CreatedTime :: int
  pod_AllContainersByID :: "go_error + string list"
  pod_AllContainers :: "go_error + Container list"
  pod_Status :: "go_error + (string \<times> ContainerStatus) list"
  pod_GetPodStatus :: "go_error + string"
  pod_InfraContainer :: "go_error + Container"

text \<open>The network registry behind \<^verbatim>\<open>r.Network().NetworkInspect(val)\<close>.\<close>

record Network =
  net_Name :: string
  net_ID :: string

record Runtime =
  NetworkInspect :: "string \<Rightarrow> go_error + Network"

text \<open>
  What the file imports and does not define, taken as parameters: the regular
  expressions of the Go standard library (\<^verbatim>\<open>regexp.Compile\<close> returns a compiled
  expression, here its unanchored \<^verbatim>\<open>MatchString\<close>, or an error), the helpers
  \<^verbatim>\<open>util.StringMatchRegexSlice\<close>, \<^verbatim>\<open>filters.MatchLabelFilters\<close> and
  \<^verbatim>\<open>util.ComputeUntilTimestamp\<close>, and \<^verbatim>\<open>ContainerStatus.String\<close>.
\<close>

record externals =
  regexp_Compile :: "string \<Rightarrow> go_error + (string \<Rightarrow> bool)"
  StringMatchRegexSlice :: "string \<Rightarrow> string list \<Rightarrow> bool"
  MatchLabelFilters :: "string list \<Rightarrow> (string \<rightharpoonup> string) \<Rightarrow> bool"
  ComputeUntilTimestamp :: "string list \<Rightarrow> go_error + int"
  ContainerStatus_String :: "ContainerStatus \<Rightarrow> string"

text \<open>
  \<^verbatim>\<open>regexp.MatchString(pattern, s)\<close> compiles the pattern and, when that succeeds,
  matches.
\<close>

definition regexp_MatchString :: "externals \<Rightarrow> string \<Rightarrow> string \<Rightarrow> go_error + bool" where
  "regexp_MatchString ext pattern s =
     (case regexp_Compile ext pattern of
        Inl err \<Rightarrow> Inl err
      | Inr re \<Rightarrow> Inr (re s))"

subsection \<open>The predicates\<close>

text \<open>
  Filter \<^verbatim>\<open>ctr-ids\<close>. The loop over the filter values: a value with a non-hex byte
  is compiled as a regular expression, and a failing compilation returns false from the
  predicate; otherwise the expression is tried on every container id. A hex value is
  tried as a prefix of every container id.
\<close>

fun ctrIdsLoop :: "externals \<Rightarrow> string list \<Rightarrow> string list \<Rightarrow> bool" where
  "ctrIdsLoop ext ctrIds [] = False"
| "ctrIdsLoop ext ctrIds (want # rest) =
     (if NotHexRegex_MatchString want then
        (case regexp_Compile ext want of
           Inl err \<Rightarrow> False
         | Inr re \<Rightarrow>
             if list_ex (\<lambda>cid. re cid) ctrIds then True
             else ctrIdsLoop ext ctrIds rest)
      else if list_ex (\<lambda>cid. HasPrefix cid (ToLower want)) ctrIds then True
      else ctrIdsLoop ext ctrIds rest)"

definition ctrIdsFilter :: "externals \<Rightarrow> string list \<Rightarrow> Pod \<Rightarrow> bool" where
  "ctrIdsFilter ext filterValues p =
     (case pod_AllContainersByID p of
        Inl err \<Rightarrow> False
      | Inr ctrIds \<Rightarrow> ctrIdsLoop ext ctrIds filterValues)"

text \<open>
  Filter \<^verbatim>\<open>ctr-names\<close>. The body of the loop over the containers is a
  \<^verbatim>\<open>return\<close>, so the first container decides.
\<close>

definition ctrNamesFilter :: "externals \<Rightarrow> string list \<Rightarrow> Pod \<Rightarrow> bool" where
  "ctrNamesFilter ext filterValues p =
     (case pod_AllContainers p of
        Inl err \<Rightarrow> False
      | Inr ctrs \<Rightarrow>
          (case ctrs of
             [] \<Rightarrow> False
           | ctr # others \<Rightarrow> StringMatchRegexSlice ext (ctr_Name ctr) filterValues))"

text \<open>
  Filter \<^verbatim>\<open>ctr-number\<close>. A value that \<^verbatim>\<open>strconv.Atoi\<close> rejects returns false from
  the predicate.
\<close>

fun ctrNumberLoop :: "string list \<Rightarrow> string list \<Rightarrow> bool" where
  "ctrNumberLoop ctrIds [] = False"
| "ctrNumberLoop ctrIds (filterValue # rest) =
     (case Atoi filterValue of
        Inl err2 \<Rightarrow> False
      | Inr fVint \<Rightarrow>
          if int (length ctrIds) = fVint then True
          else ctrNumberLoop ctrIds rest)"

definition ctrNumberFilter :: "string list \<Rightarrow> Pod \<Rightarrow> bool" where
  "ctrNumberFilter filterValues p =
     (case pod_AllContainersByID p of
        Inl err \<Rightarrow> False
      | Inr ctrIds \<Rightarrow> ctrNumberLoop ctrIds filterValues)"

text \<open>
  Filter \<^verbatim>\<open>ctr-status\<close>. The values are checked first; the result is the first
  value outside the vocabulary, if there is one. The predicate renames the state of each
  container, renames the value \<open>stopped\<close>, and compares.
\<close>

definition ctrStatusVocabulary :: "string list" where
  "ctrStatusVocabulary =
     [''created'', ''running'', ''paused'', ''stopped'', ''exited'', ''unknown'']"

fun ctrStatusCheck :: "string list \<Rightarrow> go_error option" where
  "ctrStatusCheck [] = None"
| "ctrStatusCheck (filterValue # rest) =
     (if \<not> StringInSlice filterValue ctrStatusVocabulary
      then Some (ErrorString (filterValue @ '' is not a valid status''))
      else ctrStatusCheck rest)"

fun ctrStatusValues :: "string \<Rightarrow> string list \<Rightarrow> bool" where
  "ctrStatusValues state [] = False"
| "ctrStatusValues state (filterValue # rest) =
     (let filterValue' = (if filterValue = ''stopped'' then ''exited'' else filterValue)
      in if state = filterValue' then True else ctrStatusValues state rest)"

definition ctrStatusState :: "externals \<Rightarrow> ContainerStatus \<Rightarrow> string" where
  "ctrStatusState ext ctrStatus =
     (if ctrStatus = ContainerStateConfigured then ''created''
      else if ctrStatus = ContainerStateStopped then ''exited''
      else ContainerStatus_String ext ctrStatus)"

fun ctrStatusLoop ::
  "externals \<Rightarrow> string list \<Rightarrow> (string \<times> ContainerStatus) list \<Rightarrow> bool" where
  "ctrStatusLoop ext filterValues [] = False"
| "ctrStatusLoop ext filterValues ((ctrId, ctrStatus) # rest) =
     (if ctrStatusValues (ctrStatusState ext ctrStatus) filterValues then True
      else ctrStatusLoop ext filterValues rest)"

definition ctrStatusFilter :: "externals \<Rightarrow> string list \<Rightarrow> Pod \<Rightarrow> bool" where
  "ctrStatusFilter ext filterValues p =
     (case pod_Status p of
        Inl err \<Rightarrow> False
      | Inr ctrStatuses \<Rightarrow> ctrStatusLoop ext filterValues ctrStatuses)"

text \<open>
  Filter \<^verbatim>\<open>id\<close>. A value with a non-hex byte goes to \<^verbatim>\<open>regexp.MatchString\<close>, and
  an error there moves on to the next value; a hex value is tried as a prefix of the pod
  id.
\<close>

fun idLoop :: "externals \<Rightarrow> string \<Rightarrow> string list \<Rightarrow> bool" where
  "idLoop ext podId [] = False"
| "idLoop ext podId (want # rest) =
     (if NotHexRegex_MatchString want then
        (case regexp_MatchString ext want podId of
           Inr True \<Rightarrow> True
         | Inr False \<Rightarrow> idLoop ext podId rest
         | Inl err \<Rightarrow> idLoop ext podId rest)
      else if HasPrefix podId (ToLower want) then True
      else idLoop ext podId rest)"

definition idFilter :: "externals \<Rightarrow> string list \<Rightarrow> Pod \<Rightarrow> bool" where
  "idFilter ext filterValues p = idLoop ext (pod_ID p) filterValues"

text \<open>Filter \<^verbatim>\<open>name\<close>.\<close>

definition nameFilter :: "externals \<Rightarrow> string list \<Rightarrow> Pod \<Rightarrow> bool" where
  "nameFilter ext filterValues p = StringMatchRegexSlice ext (pod_Name p) filterValues"

text \<open>Filter \<^verbatim>\<open>status\<close>, with its own vocabulary and no renaming.\<close>

definition podStatusVocabulary :: "string list" where
  "podStatusVocabulary =
     [''stopped'', ''running'', ''paused'', ''exited'', ''dead'', ''created'', ''degraded'']"

fun podStatusCheck :: "string list \<Rightarrow> go_error option" where
  "podStatusCheck [] = None"
| "podStatusCheck (filterValue # rest) =
     (if \<not> StringInSlice filterValue podStatusVocabulary
      then Some (ErrorString (filterValue @ '' is not a valid pod status''))
      else podStatusCheck rest)"

fun podStatusLoop :: "string \<Rightarrow> string list \<Rightarrow> bool" where
  "podStatusLoop status [] = False"
| "podStatusLoop status (filterValue # rest) =
     (if ToLower status = filterValue then True else podStatusLoop status rest)"

definition podStatusFilter :: "string list \<Rightarrow> Pod \<Rightarrow> bool" where
  "podStatusFilter filterValues p =
     (case pod_GetPodStatus p of
        Inl err \<Rightarrow> False
      | Inr status \<Rightarrow> podStatusLoop status filterValues)"

text \<open>Filter \<^verbatim>\<open>label\<close>.\<close>

definition labelFilter :: "externals \<Rightarrow> string list \<Rightarrow> Pod \<Rightarrow> bool" where
  "labelFilter ext filterValues p = MatchLabelFilters ext filterValues (pod_Labels p)"

text \<open>Filter \<^verbatim>\<open>until\<close>: the threshold is computed inside the predicate.\<close>

definition untilFilter :: "externals \<Rightarrow> string list \<Rightarrow> Pod \<Rightarrow> bool" where
  "untilFilter ext filterValues p =
     (case ComputeUntilTimestamp ext filterValues of
        Inl err \<Rightarrow> False
      | Inr until \<Rightarrow> if pod_CreatedTime p < until then True else False)"

text \<open>
  Filter \<^verbatim>\<open>network\<close>. The loop before the closure resolves the values: a value the
  registry does not know is passed over, any other error is returned, and the name of each
  network found is appended to \<open>inputNetNames\<close>.
\<close>

fun resolveNetNames :: "Runtime \<Rightarrow> string list \<Rightarrow> string list \<Rightarrow> go_error + string list" where
  "resolveNetNames r [] inputNetNames = Inr inputNetNames"
| "resolveNetNames r (val # rest) inputNetNames =
     (case NetworkInspect r val of
        Inl err \<Rightarrow>
          if errors_Is err ErrNoSuchNetwork then resolveNetNames r rest inputNetNames
          else Inl err
      | Inr net \<Rightarrow> resolveNetNames r rest (inputNetNames @ [net_Name net]))"

fun networkLoop :: "string list \<Rightarrow> string list \<Rightarrow> bool" where
  "networkLoop inputNetNames [] = False"
| "networkLoop inputNetNames (net # rest) =
     (if StringInSlice net inputNetNames then True else networkLoop inputNetNames rest)"

definition networkFilter :: "string list \<Rightarrow> Pod \<Rightarrow> bool" where
  "networkFilter inputNetNames p =
     (case pod_InfraContainer p of
        Inl err \<Rightarrow> False
      | Inr infra \<Rightarrow>
          (case ctr_Networks infra of
             Inl err \<Rightarrow> False
           | Inr networks \<Rightarrow>
               if length networks = 0 then False
               else networkLoop inputNetNames networks))"

subsection \<open>The dispatcher\<close>

definition GeneratePodFilterFunc ::
  "externals \<Rightarrow> string \<Rightarrow> string list \<Rightarrow> Runtime \<Rightarrow> go_error + (Pod \<Rightarrow> bool)" where
  "GeneratePodFilterFunc ext filter' filterValues r =
     (if filter' = ''ctr-ids'' then Inr (ctrIdsFilter ext filterValues)
      else if filter' = ''ctr-names'' then Inr (ctrNamesFilter ext filterValues)
      else if filter' = ''ctr-number'' then Inr (ctrNumberFilter filterValues)
      else if filter' = ''ctr-status'' then
        (case ctrStatusCheck filterValues of
           Some err \<Rightarrow> Inl err
         | None \<Rightarrow> Inr (ctrStatusFilter ext filterValues))
      else if filter' = ''id'' then Inr (idFilter ext filterValues)
      else if filter' = ''name'' then Inr (nameFilter ext filterValues)
      else if filter' = ''status'' then
        (case podStatusCheck filterValues of
           Some err \<Rightarrow> Inl err
         | None \<Rightarrow> Inr (podStatusFilter filterValues))
      else if filter' = ''label'' then Inr (labelFilter ext filterValues)
      else if filter' = ''until'' then Inr (untilFilter ext filterValues)
      else if filter' = ''network'' then
        (case resolveNetNames r filterValues [] of
           Inl err \<Rightarrow> Inl err
         | Inr inputNetNames \<Rightarrow> Inr (networkFilter inputNetNames))
      else Inl (ErrorString (filter' @ '' is an invalid filter'')))"

text \<open>The case labels of the switch, in the order of the source.\<close>

definition filterNames :: "string list" where
  "filterNames =
     [''ctr-ids'', ''ctr-names'', ''ctr-number'', ''ctr-status'', ''id'', ''name'',
      ''status'', ''label'', ''until'', ''network'']"

subsection \<open>Concrete collaborators and pods\<close>

text \<open>
  Instances of the parameters, for evaluating the filters on concrete pods. The regular
  expressions are cut down to the patterns the examples use: a pattern of letters and
  digits, with or without a trailing \<open>.*\<close>, is searched for anywhere in the subject, as
  \<^verbatim>\<open>MatchString\<close> does; every other pattern, the unclosed bracket \<open>[\<close> among them,
  is taken as one that does not compile.
\<close>

fun Contains :: "string \<Rightarrow> string \<Rightarrow> bool" where
  "Contains [] sub = (sub = [])"
| "Contains (c # s) sub = (if prefix sub (c # s) then True else Contains s sub)"

definition is_word_byte :: "char \<Rightarrow> bool" where
  "is_word_byte c =
     (let n = (of_char c :: nat)
      in (48 \<le> n \<and> n \<le> 57) \<or> (97 \<le> n \<and> n \<le> 122) \<or> (65 \<le> n \<and> n \<le> 90))"

fun literal_part :: "string \<Rightarrow> string" where
  "literal_part [] = []"
| "literal_part (c # cs) = (if c # cs = ''.*'' then [] else c # literal_part cs)"

definition sample_Compile :: "string \<Rightarrow> go_error + (string \<Rightarrow> bool)" where
  "sample_Compile pattern =
     (let lit = literal_part pattern
      in if list_all is_word_byte lit then Inr (\<lambda>s. Contains s lit)
         else Inl (ErrorString (''error parsing regexp: '' @ pattern)))"

text \<open>
  Modelled from the spec: \<^verbatim>\<open>util.StringMatchRegexSlice\<close> is defined in pkg/util,
  not in the file at hand. The spec calls it a helper that matches the candidate against
  any regular expression of a list; here it runs over a given \<^verbatim>\<open>Compile\<close> and
  passes over a pattern that does not compile. It serves as the instance of the parameter
  on the concrete pods only.
\<close>

fun matchAnyRegex :: "(string \<Rightarrow> go_error + (string \<Rightarrow> bool)) \<Rightarrow> string \<Rightarrow> string list \<Rightarrow> bool" where
  "matchAnyRegex compile s [] = False"
| "matchAnyRegex compile s (pattern # rest) =
     (case compile pattern of
        Inr re \<Rightarrow> if re s then True else matchAnyRegex compile s rest
      | Inl err \<Rightarrow> matchAnyRegex compile s rest)"

text \<open>
  An instance of \<^verbatim>\<open>ContainerStatus.String\<close> for the concrete pods: one name per
  state.
\<close>

fun sample_String :: "ContainerStatus \<Rightarrow> string" where
  "sample_String ContainerStateUnknown = ''unknown''"
| "sample_String ContainerStateConfigured = ''created''"
| "sample_String ContainerStateCreated = ''initialized''"
| "sample_String ContainerStateRunning = ''running''"
| "sample_String ContainerStateStopped = ''stopped''"
| "sample_String ContainerStatePaused = ''paused''"
| "sample_String ContainerStateExited = ''exited''"
| "sample_String ContainerStateRemoving = ''removing''"
| "sample_String ContainerStateStopping = ''stopping''"

text \<open>
  A label filter that asks for the presence of every key, and a threshold that is read
  from exactly one value holding a number of seconds.
\<close>

definition sample_MatchLabelFilters :: "string list \<Rightarrow> (string \<rightharpoonup> string) \<Rightarrow> bool" where
  "sample_MatchLabelFilters filterValues labels =
     list_all (\<lambda>k. labels k \<noteq> None) filterValues"

definition sample_ComputeUntilTimestamp :: "string list \<Rightarrow> go_error + int" where
  "sample_ComputeUntilTimestamp filterValues =
     (case filterValues of
        [v] \<Rightarrow> Atoi v
      | _ \<Rightarrow> Inl (ErrorString ''specify exactly one timestamp for until''))"

definition sample_ext :: externals where
  "sample_ext =
     \<lparr> regexp_Compile = sample_Compile,
       StringMatchRegexSlice = matchAnyRegex sample_Compile,
       MatchLabelFilters = sample_MatchLabelFilters,
       ComputeUntilTimestamp = sample_ComputeUntilTimestamp,
       ContainerStatus_String = sample_String \<rparr>"

text \<open>
  A registry that knows the network \<open>bridge\<close>, fails on the name \<open>locked\<close> with an
  error of its own, and reports every other name as not found, wrapped once.
\<close>

definition sample_NetworkInspect :: "string \<Rightarrow> go_error + Network" where
  "sample_NetworkInspect val =
     (if val = ''bridge'' \<or> val = ''2f259bab93aa''
      then Inr \<lparr> net_Name = ''bridge'', net_ID = ''2f259bab93aa'' \<rparr>
      else if val = ''locked'' then Inl (ErrorString ''database is locked'')
      else Inl (WrapError (''unable to find network with name or ID '' @ val) ErrNoSuchNetwork))"

definition sample_runtime :: Runtime where
  "sample_runtime = \<lparr> NetworkInspect = sample_NetworkInspect \<rparr>"

text \<open>
  A pod with three containers, the first of them the infra container on the network
  \<open>bridge\<close>, and the same pod with each fallible accessor failing.
\<close>

definition ctr_infra :: Container where
  "ctr_infra = \<lparr> ctr_Name = ''infra'', ctr_Networks = Inr [''bridge''] \<rparr>"

definition ctr_web :: Container where
  "ctr_web = \<lparr> ctr_Name = ''web'', ctr_Networks = Inr [] \<rparr>"

definition ctr_db :: Container where
  "ctr_db = \<lparr> ctr_Name = ''db'', ctr_Networks = Inr [] \<rparr>"

definition sample_pod :: Pod where
  "sample_pod =
     \<lparr> pod_ID = ''abcdef0123'',
       pod_Name = ''mypod'',
       pod_Labels = [''app'' \<mapsto> ''shop''],
       pod_CreatedTime = 1000,
       pod_AllContainersByID = Inr [''abc111'', ''def222'', ''0123ff''],
       pod_AllContainers = Inr [ctr_infra, ctr_web, ctr_db],
       pod_Status =
         Inr [(''abc111'', ContainerStateRunning), (''def222'', ContainerStateConfigured),
              (''0123ff'', ContainerStateStopped)],
       pod_GetPodStatus = Inr ''Exited'',
       pod_InfraContainer = Inr ctr_infra \<rparr>"

definition accessor_error :: go_error where
  "accessor_error = ErrorString ''no such pod''"

definition broken_pod :: Pod where
  "broken_pod =
     sample_pod
       \<lparr> pod_AllContainersByID := Inl accessor_error,
         pod_AllContainers := Inl accessor_error,
         pod_Status := Inl accessor_error,
         pod_GetPodStatus := Inl accessor_error,
         pod_InfraContainer := Inl accessor_error \<rparr>"

definition pod_infra_without_networks :: Pod where
  "pod_infra_without_networks =
     sample_pod
       \<lparr> pod_InfraContainer :=
           Inr \<lparr> ctr_Name = ''infra'', ctr_Networks = Inl accessor_error \<rparr> \<rparr>"

definition empty_pod :: Pod where
  "empty_pod =
     sample_pod
       \<lparr> pod_AllContainersByID := Inr [],
         pod_AllContainers := Inr [] \<rparr>"

section \<open>Properties of the loops\<close>

text \<open>
  Facts for unfolding the concrete collaborators, the string functions and the
  predicates when a filter is evaluated on a concrete pod.
\<close>

lemmas sample_defs =
  sample_ext_def sample_runtime_def sample_pod_def broken_pod_def empty_pod_def
  pod_infra_without_networks_def ctr_infra_def ctr_web_def ctr_db_def accessor_error_def
  sample_Compile_def sample_NetworkInspect_def sample_MatchLabelFilters_def
  sample_ComputeUntilTimestamp_def is_word_byte_def

lemmas string_defs =
  ToLower_def toLower_byte_def char_of_eq_iff HasPrefix_def NotHexRegex_MatchString_def
  is_hex_byte_def Atoi_def is_digit_byte_def regexp_MatchString_def

lemmas filter_defs =
  ctrIdsFilter_def ctrNamesFilter_def ctrNumberFilter_def ctrStatusFilter_def idFilter_def
  nameFilter_def podStatusFilter_def labelFilter_def untilFilter_def networkFilter_def
  ctrStatusState_def ctrStatusVocabulary_def podStatusVocabulary_def

lemma StringInSlice_iff: "StringInSlice s sl \<longleftrightarrow> s \<in> set sl"
  by (induction sl) auto

lemma is_hex_byte_iff: "is_hex_byte c \<longleftrightarrow> c \<in> set ''0123456789abcdefABCDEF''"
  by (cases c) (auto simp: is_hex_byte_def)

lemma NotHexRegex_iff:
  "NotHexRegex_MatchString s \<longleftrightarrow> \<not> set s \<subseteq> set ''0123456789abcdefABCDEF''"
  unfolding NotHexRegex_MatchString_def list_ex_iff
  using is_hex_byte_iff by blast

lemma ctrStatusCheck_None: "ctrStatusCheck vs = None \<longleftrightarrow> set vs \<subseteq> set ctrStatusVocabulary"
  by (induction vs) (auto simp: StringInSlice_iff)

lemma ctrStatusCheck_Some:
  "ctrStatusCheck vs = Some e \<Longrightarrow>
     \<exists>pre v post. vs = pre @ v # post \<and> set pre \<subseteq> set ctrStatusVocabulary \<and>
       v \<notin> set ctrStatusVocabulary \<and> e = ErrorString (v @ '' is not a valid status'')"
proof (induction vs)
  case Nil
  then show ?case by simp
next
  case (Cons a vs)
  show ?case
  proof (cases "a \<in> set ctrStatusVocabulary")
    case False
    with Cons.prems have "e = ErrorString (a @ '' is not a valid status'')"
      by (simp add: StringInSlice_iff)
    with False have "a # vs = [] @ a # vs \<and> set [] \<subseteq> set ctrStatusVocabulary \<and>
       a \<notin> set ctrStatusVocabulary \<and> e = ErrorString (a @ '' is not a valid status'')"
      by simp
    then show ?thesis by blast
  next
    case True
    with Cons.prems have "ctrStatusCheck vs = Some e"
      by (simp add: StringInSlice_iff)
    from Cons.IH [OF this] obtain pre v post where
      h: "vs = pre @ v # post" "set pre \<subseteq> set ctrStatusVocabulary"
         "v \<notin> set ctrStatusVocabulary" "e = ErrorString (v @ '' is not a valid status'')"
      by blast
    with True have "a # vs = (a # pre) @ v # post \<and> set (a # pre) \<subseteq> set ctrStatusVocabulary \<and>
       v \<notin> set ctrStatusVocabulary \<and> e = ErrorString (v @ '' is not a valid status'')"
      by simp
    then show ?thesis by blast
  qed
qed

lemma podStatusCheck_None: "podStatusCheck vs = None \<longleftrightarrow> set vs \<subseteq> set podStatusVocabulary"
  by (induction vs) (auto simp: StringInSlice_iff)

lemma podStatusCheck_Some:
  "podStatusCheck vs = Some e \<Longrightarrow>
     \<exists>pre v post. vs = pre @ v # post \<and> set pre \<subseteq> set podStatusVocabulary \<and>
       v \<notin> set podStatusVocabulary \<and> e = ErrorString (v @ '' is not a valid pod status'')"
proof (induction vs)
  case Nil
  then show ?case by simp
next
  case (Cons a vs)
  show ?case
  proof (cases "a \<in> set podStatusVocabulary")
    case False
    with Cons.prems have "e = ErrorString (a @ '' is not a valid pod status'')"
      by (simp add: StringInSlice_iff)
    with False have "a # vs = [] @ a # vs \<and> set [] \<subseteq> set podStatusVocabulary \<and>
       a \<notin> set podStatusVocabulary \<and> e = ErrorString (a @ '' is not a valid pod status'')"
      by simp
    then show ?thesis by blast
  next
    case True
    with Cons.prems have "podStatusCheck vs = Some e"
      by (simp add: StringInSlice_iff)
    from Cons.IH [OF this] obtain pre v post where
      h: "vs = pre @ v # post" "set pre \<subseteq> set podStatusVocabulary"
         "v \<notin> set podStatusVocabulary" "e = ErrorString (v @ '' is not a valid pod status'')"
      by blast
    with True have "a # vs = (a # pre) @ v # post \<and> set (a # pre) \<subseteq> set podStatusVocabulary \<and>
       v \<notin> set podStatusVocabulary \<and> e = ErrorString (v @ '' is not a valid pod status'')"
      by simp
    then show ?thesis by blast
  qed
qed

lemma idLoop_iff:
  "idLoop ext podId vs \<longleftrightarrow>
     (\<exists>want\<in>set vs. if NotHexRegex_MatchString want
        then regexp_MatchString ext want podId = Inr True
        else prefix (ToLower want) podId)"
  by (induction vs) (auto simp: HasPrefix_def split: sum.splits bool.splits)

lemma ctrStatusValues_iff:
  "ctrStatusValues state vs \<longleftrightarrow>
     (\<exists>v\<in>set vs. state = (if v = ''stopped'' then ''exited'' else v))"
  by (induction vs) (auto simp: Let_def)

lemma ctrStatusLoop_iff:
  "ctrStatusLoop ext vs sts \<longleftrightarrow>
     (\<exists>st\<in>snd ` set sts. ctrStatusValues (ctrStatusState ext st) vs)"
  by (induction sts) auto

lemma podStatusLoop_iff: "podStatusLoop status vs \<longleftrightarrow> ToLower status \<in> set vs"
  by (induction vs) auto

lemma networkLoop_iff:
  "networkLoop names networks \<longleftrightarrow> (\<exists>net\<in>set networks. net \<in> set names)"
  by (induction networks) (auto simp: StringInSlice_iff)

lemma resolveNetNames_ok:
  "(\<forall>v\<in>set vs. \<forall>e. NetworkInspect r v = Inl e \<longrightarrow> errors_Is e ErrNoSuchNetwork) \<Longrightarrow>
   resolveNetNames r vs acc =
     Inr (acc @ concat (map (\<lambda>v. case NetworkInspect r v of
                                   Inr net \<Rightarrow> [net_Name net] | Inl e \<Rightarrow> []) vs))"
  by (induction vs arbitrary: acc) (auto split: sum.splits)

lemma resolveNetNames_error:
  "(\<forall>u\<in>set pre. \<forall>e'. NetworkInspect r u = Inl e' \<longrightarrow> errors_Is e' ErrNoSuchNetwork) \<Longrightarrow>
   NetworkInspect r v = Inl e \<Longrightarrow> \<not> errors_Is e ErrNoSuchNetwork \<Longrightarrow>
   resolveNetNames r (pre @ v # post) acc = Inl e"
  by (induction pre arbitrary: acc) (auto split: sum.splits)

lemma resolveNetNames_Inl:
  "resolveNetNames r vs acc = Inl e \<Longrightarrow>
     \<exists>v\<in>set vs. NetworkInspect r v = Inl e \<and> \<not> errors_Is e ErrNoSuchNetwork"
  by (induction vs arbitrary: acc) (auto split: sum.splits if_splits)

lemma ctrStatusFilter_iff:
  "pod_Status p = Inr sts \<Longrightarrow>
     ctrStatusFilter ext vs p =
       (\<exists>st\<in>snd ` set sts. \<exists>v\<in>set vs.
          ctrStatusState ext st = (if v = ''stopped'' then ''exited'' else v))"
  by (simp add: ctrStatusFilter_def ctrStatusLoop_iff ctrStatusValues_iff)

text \<open>
  Where a loop leaves early: a value that does not compile, or that is no number, decides
  the predicate at once, whatever values follow it.
\<close>

lemma ctrIdsLoop_invalid_regex:
  "NotHexRegex_MatchString want \<Longrightarrow> regexp_Compile ext want = Inl err \<Longrightarrow>
     ctrIdsLoop ext ctrIds (want # rest) = False"
  by simp

lemma ctrNumberLoop_unparsable:
  "Atoi filterValue = Inl err2 \<Longrightarrow> ctrNumberLoop ctrIds (filterValue # rest) = False"
  by simp

lemma idLoop_empty_value: "[] \<in> set filterValues \<Longrightarrow> idLoop ext podId filterValues"
  unfolding idLoop_iff
  by (rule bexI [of _ "[]"]) (simp_all add: NotHexRegex_MatchString_def ToLower_def)

section \<open>Claims\<close>

text \<open>
  Claim C1 (fail-closed evaluation). Whatever the filter name, once
  \<open>GeneratePodFilterFunc\<close> has returned a predicate \<open>f\<close>, an accessor of the entity
  model that the predicate of that filter calls and that reports an error makes \<open>f\<close>
  false on that pod: the enumeration of the containers by id (\<open>ctr-ids\<close>,
  \<open>ctr-number\<close>) or as containers (\<open>ctr-names\<close>), the container states
  (\<open>ctr-status\<close>), the pod status (\<open>status\<close>), the computation of the threshold
  (\<open>until\<close>), the lookup of the infra container and the enumeration of its networks
  (\<open>network\<close>). The predicate is a function into the booleans, so no error leaves it.
\<close>

theorem fail_closed_evaluation:
  assumes "GeneratePodFilterFunc ext filter' filterValues r = Inr f"
  shows "(filter' = ''ctr-ids'' \<and> isl (pod_AllContainersByID p) \<longrightarrow> \<not> f p)
       \<and> (filter' = ''ctr-names'' \<and> isl (pod_AllContainers p) \<longrightarrow> \<not> f p)
       \<and> (filter' = ''ctr-number'' \<and> isl (pod_AllContainersByID p) \<longrightarrow> \<not> f p)
       \<and> (filter' = ''ctr-status'' \<and> isl (pod_Status p) \<longrightarrow> \<not> f p)
       \<and> (filter' = ''status'' \<and> isl (pod_GetPodStatus p) \<longrightarrow> \<not> f p)
       \<and> (filter' = ''until'' \<and> isl (ComputeUntilTimestamp ext filterValues) \<longrightarrow> \<not> f p)
       \<and> (filter' = ''network'' \<and> isl (pod_InfraContainer p) \<longrightarrow> \<not> f p)
       \<and> (filter' = ''network'' \<and>
            (\<exists>infra. pod_InfraContainer p = Inr infra \<and> isl (ctr_Networks infra)) \<longrightarrow> \<not> f p)"
proof -
  have ids: "filter' = ''ctr-ids'' \<and> isl (pod_AllContainersByID p) \<longrightarrow> \<not> f p"
    using assms by (auto simp: GeneratePodFilterFunc_def ctrIdsFilter_def isl_def)
  have names: "filter' = ''ctr-names'' \<and> isl (pod_AllContainers p) \<longrightarrow> \<not> f p"
    using assms by (auto simp: GeneratePodFilterFunc_def ctrNamesFilter_def isl_def)
  have number: "filter' = ''ctr-number'' \<and> isl (pod_AllContainersByID p) \<longrightarrow> \<not> f p"
    using assms by (auto simp: GeneratePodFilterFunc_def ctrNumberFilter_def isl_def)
  have cstatus: "filter' = ''ctr-status'' \<and> isl (pod_Status p) \<longrightarrow> \<not> f p"
    using assms
    by (auto simp: GeneratePodFilterFunc_def ctrStatusFilter_def isl_def split: option.splits)
  have pstatus: "filter' = ''status'' \<and> isl (pod_GetPodStatus p) \<longrightarrow> \<not> f p"
    using assms
    by (auto simp: GeneratePodFilterFunc_def podStatusFilter_def isl_def split: option.splits)
  have until: "filter' = ''until'' \<and> isl (ComputeUntilTimestamp ext filterValues) \<longrightarrow> \<not> f p"
    using assms by (auto simp: GeneratePodFilterFunc_def untilFilter_def isl_def)
  have infra: "filter' = ''network'' \<and> isl (pod_InfraContainer p) \<longrightarrow> \<not> f p"
    using assms
    by (auto simp: GeneratePodFilterFunc_def networkFilter_def isl_def split: sum.splits)
  have nets: "filter' = ''network'' \<and>
      (\<exists>infra. pod_InfraContainer p = Inr infra \<and> isl (ctr_Networks infra)) \<longrightarrow> \<not> f p"
    using assms
    by (auto simp: GeneratePodFilterFunc_def networkFilter_def isl_def split: sum.splits)
  from ids names number cstatus pstatus until infra nets show ?thesis
    by blast
qed

text \<open>The same on the concrete pod and collaborators.\<close>

theorem fail_closed_evaluation_witness:
  "GeneratePodFilterFunc sample_ext ''ctr-ids'' [''abc''] sample_runtime =
     Inr (ctrIdsFilter sample_ext [''abc''])
   \<and> isl (pod_AllContainersByID broken_pod)
   \<and> \<not> ctrIdsFilter sample_ext [''abc''] broken_pod
   \<and> ctrIdsFilter sample_ext [''abc''] sample_pod
   \<and> GeneratePodFilterFunc sample_ext ''network'' [''bridge''] sample_runtime =
     Inr (networkFilter [''bridge''])
   \<and> pod_InfraContainer pod_infra_without_networks =
       Inr \<lparr> ctr_Name = ''infra'', ctr_Networks = Inl accessor_error \<rparr>
   \<and> \<not> networkFilter [''bridge''] pod_infra_without_networks
   \<and> networkFilter [''bridge''] sample_pod
   \<and> GeneratePodFilterFunc sample_ext ''until'' [''soon''] sample_runtime =
     Inr (untilFilter sample_ext [''soon''])
   \<and> isl (ComputeUntilTimestamp sample_ext [''soon''])
   \<and> \<not> untilFilter sample_ext [''soon''] sample_pod"
proof -
  have g1: "GeneratePodFilterFunc sample_ext ''ctr-ids'' [''abc''] sample_runtime =
     Inr (ctrIdsFilter sample_ext [''abc''])"
    by (simp add: GeneratePodFilterFunc_def)
  have b1: "isl (pod_AllContainersByID broken_pod)"
    by (simp add: sample_defs)
  have n1: "\<not> ctrIdsFilter sample_ext [''abc''] broken_pod"
    using fail_closed_evaluation [OF g1, of broken_pod] b1 by simp
  have p1: "ctrIdsFilter sample_ext [''abc''] sample_pod"
    by (simp add: sample_defs string_defs filter_defs)
  have g2: "GeneratePodFilterFunc sample_ext ''network'' [''bridge''] sample_runtime =
     Inr (networkFilter [''bridge''])"
    by (simp add: GeneratePodFilterFunc_def sample_defs)
  have b2: "pod_InfraContainer pod_infra_without_networks =
       Inr \<lparr> ctr_Name = ''infra'', ctr_Networks = Inl accessor_error \<rparr>"
    by (simp add: sample_defs)
  have n2: "\<not> networkFilter [''bridge''] pod_infra_without_networks"
    using fail_closed_evaluation [OF g2, of pod_infra_without_networks] b2 by simp
  have p2: "networkFilter [''bridge''] sample_pod"
    by (simp add: sample_defs filter_defs)
  have g3: "GeneratePodFilterFunc sample_ext ''until'' [''soon''] sample_runtime =
     Inr (untilFilter sample_ext [''soon''])"
    by (simp add: GeneratePodFilterFunc_def)
  have b3: "isl (ComputeUntilTimestamp sample_ext [''soon''])"
    by (simp add: sample_defs string_defs)
  have n3: "\<not> untilFilter sample_ext [''soon''] sample_pod"
    using fail_closed_evaluation [OF g3, of sample_pod] b3 by simp
  from g1 b1 n1 p1 g2 b2 n2 p2 g3 b3 n3 show ?thesis
    by (intro conjI)
qed

text \<open>
  Claim C2 (a regular expression that does not compile). The \<open>id\<close> predicate passes
  over such a value and goes on to the next one. The \<open>ctr-ids\<close> predicate does not: the
  failed compilation returns false from the whole predicate, so a later value is never
  tried. With the values \<open>[\<close> and \<open>abc\<close> in this order, a pod whose first container id
  starts with \<open>abc\<close> is rejected by \<open>ctr-ids\<close>, although \<open>abc\<close> alone, or the two
  values in the other order, select it; the \<open>id\<close> predicate, given the same two values,
  selects the pod whose id starts with \<open>abc\<close>.
\<close>

theorem ctr_ids_invalid_regex_returns_false:
  "GeneratePodFilterFunc sample_ext ''ctr-ids'' [''['', ''abc''] sample_runtime =
     Inr (ctrIdsFilter sample_ext [''['', ''abc''])
   \<and> NotHexRegex_MatchString ''[''
   \<and> isl (regexp_Compile sample_ext ''['')
   \<and> pod_AllContainersByID sample_pod = Inr [''abc111'', ''def222'', ''0123ff'']
   \<and> ctrIdsFilter sample_ext [''['', ''abc''] sample_pod = False
   \<and> ctrIdsFilter sample_ext [''abc'', ''[''] sample_pod = True
   \<and> ctrIdsFilter sample_ext [''abc''] sample_pod = True
   \<and> pod_ID sample_pod = ''abcdef0123''
   \<and> idFilter sample_ext [''['', ''abc''] sample_pod = True"
proof -
  have g: "GeneratePodFilterFunc sample_ext ''ctr-ids'' [''['', ''abc''] sample_runtime =
     Inr (ctrIdsFilter sample_ext [''['', ''abc''])"
    by (simp add: GeneratePodFilterFunc_def)
  have rest: "NotHexRegex_MatchString ''[''
   \<and> isl (regexp_Compile sample_ext ''['')
   \<and> pod_AllContainersByID sample_pod = Inr [''abc111'', ''def222'', ''0123ff'']
   \<and> ctrIdsFilter sample_ext [''['', ''abc''] sample_pod = False
   \<and> ctrIdsFilter sample_ext [''abc'', ''[''] sample_pod = True
   \<and> ctrIdsFilter sample_ext [''abc''] sample_pod = True
   \<and> pod_ID sample_pod = ''abcdef0123''
   \<and> idFilter sample_ext [''['', ''abc''] sample_pod = True"
    by (simp add: sample_defs string_defs filter_defs)
  from g rest show ?thesis by (rule conjI)
qed

text \<open>
  Claim C3 (\<open>ctr-number\<close> and a value that is no number). A value that
  \<^verbatim>\<open>strconv.Atoi\<close> rejects returns false from the whole predicate, so a later value
  is never compared. With the values \<open>abc\<close> and \<open>3\<close> in this order, a pod with three
  containers is rejected, although \<open>3\<close> alone, or the two values in the other order,
  select it.
\<close>

theorem ctr_number_unparsable_returns_false:
  "GeneratePodFilterFunc sample_ext ''ctr-number'' [''abc'', ''3''] sample_runtime =
     Inr (ctrNumberFilter [''abc'', ''3''])
   \<and> isl (Atoi ''abc'') \<and> Atoi ''3'' = Inr 3
   \<and> pod_AllContainersByID sample_pod = Inr [''abc111'', ''def222'', ''0123ff'']
   \<and> ctrNumberFilter [''abc'', ''3''] sample_pod = False
   \<and> ctrNumberFilter [''3'', ''abc''] sample_pod = True
   \<and> ctrNumberFilter [''3''] sample_pod = True"
proof -
  have g: "GeneratePodFilterFunc sample_ext ''ctr-number'' [''abc'', ''3''] sample_runtime =
     Inr (ctrNumberFilter [''abc'', ''3''])"
    by (simp add: GeneratePodFilterFunc_def)
  have rest: "isl (Atoi ''abc'') \<and> Atoi ''3'' = Inr 3
   \<and> pod_AllContainersByID sample_pod = Inr [''abc111'', ''def222'', ''0123ff'']
   \<and> ctrNumberFilter [''abc'', ''3''] sample_pod = False
   \<and> ctrNumberFilter [''3'', ''abc''] sample_pod = True
   \<and> ctrNumberFilter [''3''] sample_pod = True"
    by (simp add: sample_defs string_defs filter_defs)
  from g rest show ?thesis by (rule conjI)
qed

text \<open>
  Claim C4 (\<open>ctr-names\<close> looks at the first container only). The filter always
  compiles; on a pod whose container enumeration succeeds with at least one container the
  predicate is the answer of \<^verbatim>\<open>StringMatchRegexSlice\<close> on the name of the first
  container, whatever the other containers are, and on a pod with no container it is
  false.
\<close>

theorem ctr_names_first_child:
  "\<exists>f. GeneratePodFilterFunc ext ''ctr-names'' filterValues r = Inr f
     \<and> (\<forall>p ctr others. pod_AllContainers p = Inr (ctr # others) \<longrightarrow>
           f p = StringMatchRegexSlice ext (ctr_Name ctr) filterValues)
     \<and> (\<forall>p. pod_AllContainers p = Inr [] \<longrightarrow> \<not> f p)"
  by (auto simp: GeneratePodFilterFunc_def ctrNamesFilter_def)

text \<open>The same on the concrete pod and collaborators.\<close>

theorem ctr_names_first_child_witness:
  "pod_AllContainers sample_pod = Inr [ctr_infra, ctr_web, ctr_db]
   \<and> pod_AllContainers empty_pod = Inr []
   \<and> StringMatchRegexSlice sample_ext (ctr_Name ctr_db) [''db'']
   \<and> (\<exists>f. GeneratePodFilterFunc sample_ext ''ctr-names'' [''db''] sample_runtime = Inr f
        \<and> f sample_pod = StringMatchRegexSlice sample_ext (ctr_Name ctr_infra) [''db'']
        \<and> \<not> f sample_pod \<and> \<not> f empty_pod)"
proof -
  have a: "pod_AllContainers sample_pod = Inr (ctr_infra # [ctr_web, ctr_db])"
    by (simp add: sample_defs)
  have b: "pod_AllContainers empty_pod = Inr []"
    by (simp add: sample_defs)
  have c: "StringMatchRegexSlice sample_ext (ctr_Name ctr_db) [''db'']"
    by (simp add: sample_defs)
  have d: "\<not> StringMatchRegexSlice sample_ext (ctr_Name ctr_infra) [''db'']"
    by (simp add: sample_defs)
  from ctr_names_first_child [of sample_ext "[''db'']" sample_runtime] obtain f where
    f: "GeneratePodFilterFunc sample_ext ''ctr-names'' [''db''] sample_runtime = Inr f"
       "\<forall>p ctr others. pod_AllContainers p = Inr (ctr # others) \<longrightarrow>
           f p = StringMatchRegexSlice sample_ext (ctr_Name ctr) [''db'']"
       "\<forall>p. pod_AllContainers p = Inr [] \<longrightarrow> \<not> f p"
    by blast
  from f(2) a have e: "f sample_pod = StringMatchRegexSlice sample_ext (ctr_Name ctr_infra) [''db'']"
    by blast
  with d have n: "\<not> f sample_pod" by simp
  from f(3) b have m: "\<not> f empty_pod" by blast
  from f(1) e n m have "\<exists>f. GeneratePodFilterFunc sample_ext ''ctr-names'' [''db''] sample_runtime = Inr f
        \<and> f sample_pod = StringMatchRegexSlice sample_ext (ctr_Name ctr_infra) [''db'']
        \<and> \<not> f sample_pod \<and> \<not> f empty_pod"
    by blast
  with a b c show ?thesis by simp
qed

text \<open>
  Claim C5, amended (unknown filter names). There are ten filter names, not eleven. For
  every name outside them the result is an error and no predicate, and the message is the
  name followed by \<open>is an invalid filter\<close>. For each of the ten names the result is a
  predicate or the error of that filter's own step before the closure: a value outside
  the vocabulary of \<open>ctr-status\<close> or \<open>status\<close>, or an error of the registry for
  \<open>network\<close>.
\<close>

theorem unknown_filter_message:
  "(filter' \<notin> set filterNames \<longrightarrow>
      GeneratePodFilterFunc ext filter' filterValues r =
        Inl (ErrorString (filter' @ '' is an invalid filter'')))
   \<and> (filter' \<in> set filterNames \<longrightarrow>
        (\<exists>f. GeneratePodFilterFunc ext filter' filterValues r = Inr f)
      \<or> (\<exists>v. filter' = ''ctr-status'' \<and> v \<in> set filterValues \<and>
              GeneratePodFilterFunc ext filter' filterValues r =
                Inl (ErrorString (v @ '' is not a valid status'')))
      \<or> (\<exists>v. filter' = ''status'' \<and> v \<in> set filterValues \<and>
              GeneratePodFilterFunc ext filter' filterValues r =
                Inl (ErrorString (v @ '' is not a valid pod status'')))
      \<or> (\<exists>v e. filter' = ''network'' \<and> v \<in> set filterValues \<and>
              NetworkInspect r v = Inl e \<and> \<not> errors_Is e ErrNoSuchNetwork \<and>
              GeneratePodFilterFunc ext filter' filterValues r = Inl e))
   \<and> set filterNames =
       {''id'', ''name'', ''label'', ''status'', ''until'', ''network'', ''ctr-ids'',
        ''ctr-names'', ''ctr-number'', ''ctr-status''}
   \<and> length filterNames = 10 \<and> distinct filterNames"
proof -
  let ?G = "GeneratePodFilterFunc ext filter' filterValues r"
  have unknown: "filter' \<notin> set filterNames \<longrightarrow>
      ?G = Inl (ErrorString (filter' @ '' is an invalid filter''))"
    by (simp add: GeneratePodFilterFunc_def filterNames_def)
  have cstatus: "filter' = ''ctr-status'' \<Longrightarrow>
        (\<exists>f. ?G = Inr f)
      \<or> (\<exists>v. filter' = ''ctr-status'' \<and> v \<in> set filterValues \<and>
              ?G = Inl (ErrorString (v @ '' is not a valid status'')))"
  proof (cases "ctrStatusCheck filterValues")
    case None
    assume "filter' = ''ctr-status''"
    with None show ?thesis by (simp add: GeneratePodFilterFunc_def)
  next
    case (Some e)
    assume f: "filter' = ''ctr-status''"
    from ctrStatusCheck_Some [OF Some] obtain pre v post where
      "filterValues = pre @ v # post" "e = ErrorString (v @ '' is not a valid status'')"
      by blast
    with Some f have "v \<in> set filterValues \<and> ?G = Inl (ErrorString (v @ '' is not a valid status''))"
      by (simp add: GeneratePodFilterFunc_def)
    with f show ?thesis by blast
  qed
  have pstatus: "filter' = ''status'' \<Longrightarrow>
        (\<exists>f. ?G = Inr f)
      \<or> (\<exists>v. filter' = ''status'' \<and> v \<in> set filterValues \<and>
              ?G = Inl (ErrorString (v @ '' is not a valid pod status'')))"
  proof (cases "podStatusCheck filterValues")
    case None
    assume "filter' = ''status''"
    with None show ?thesis by (simp add: GeneratePodFilterFunc_def)
  next
    case (Some e)
    assume f: "filter' = ''status''"
    from podStatusCheck_Some [OF Some] obtain pre v post where
      "filterValues = pre @ v # post" "e = ErrorString (v @ '' is not a valid pod status'')"
      by blast
    with Some f have "v \<in> set filterValues \<and> ?G = Inl (ErrorString (v @ '' is not a valid pod status''))"
      by (simp add: GeneratePodFilterFunc_def)
    with f show ?thesis by blast
  qed
  have network: "filter' = ''network'' \<Longrightarrow>
        (\<exists>f. ?G = Inr f)
      \<or> (\<exists>v e. filter' = ''network'' \<and> v \<in> set filterValues \<and>
              NetworkInspect r v = Inl e \<and> \<not> errors_Is e ErrNoSuchNetwork \<and> ?G = Inl e)"
  proof (cases "resolveNetNames r filterValues []")
    case (Inr names)
    assume "filter' = ''network''"
    with Inr show ?thesis by (simp add: GeneratePodFilterFunc_def)
  next
    case (Inl e)
    assume f: "filter' = ''network''"
    from resolveNetNames_Inl [OF Inl] obtain v where
      "v \<in> set filterValues" "NetworkInspect r v = Inl e" "\<not> errors_Is e ErrNoSuchNetwork"
      by blast
    moreover from Inl f have "?G = Inl e"
      by (simp add: GeneratePodFilterFunc_def)
    ultimately show ?thesis using f by blast
  qed
  have plain: "filter' = ''ctr-ids'' \<or> filter' = ''ctr-names'' \<or> filter' = ''ctr-number'' \<or>
      filter' = ''id'' \<or> filter' = ''name'' \<or> filter' = ''label'' \<or> filter' = ''until''
      \<Longrightarrow> \<exists>f. ?G = Inr f"
    by (auto simp: GeneratePodFilterFunc_def)
  have known: "filter' \<in> set filterNames \<longrightarrow>
        (\<exists>f. ?G = Inr f)
      \<or> (\<exists>v. filter' = ''ctr-status'' \<and> v \<in> set filterValues \<and>
              ?G = Inl (ErrorString (v @ '' is not a valid status'')))
      \<or> (\<exists>v. filter' = ''status'' \<and> v \<in> set filterValues \<and>
              ?G = Inl (ErrorString (v @ '' is not a valid pod status'')))
      \<or> (\<exists>v e. filter' = ''network'' \<and> v \<in> set filterValues \<and>
              NetworkInspect r v = Inl e \<and> \<not> errors_Is e ErrNoSuchNetwork \<and> ?G = Inl e)"
  proof
    assume "filter' \<in> set filterNames"
    then consider (cs) "filter' = ''ctr-status''" | (ps) "filter' = ''status''"
      | (nw) "filter' = ''network''"
      | (pl) "filter' = ''ctr-ids'' \<or> filter' = ''ctr-names'' \<or> filter' = ''ctr-number'' \<or>
      filter' = ''id'' \<or> filter' = ''name'' \<or> filter' = ''label'' \<or> filter' = ''until''"
      unfolding filterNames_def by fastforce
    then show "(\<exists>f. ?G = Inr f)
      \<or> (\<exists>v. filter' = ''ctr-status'' \<and> v \<in> set filterValues \<and>
              ?G = Inl (ErrorString (v @ '' is not a valid status'')))
      \<or> (\<exists>v. filter' = ''status'' \<and> v \<in> set filterValues \<and>
              ?G = Inl (ErrorString (v @ '' is not a valid pod status'')))
      \<or> (\<exists>v e. filter' = ''network'' \<and> v \<in> set filterValues \<and>
              NetworkInspect r v = Inl e \<and> \<not> errors_Is e ErrNoSuchNetwork \<and> ?G = Inl e)"
    proof cases
      case cs
      from cstatus [OF cs] show ?thesis by (elim disjE) (erule disjI1, erule disjI2 [OF disjI1])
    next
      case ps
      from pstatus [OF ps] show ?thesis
        by (elim disjE) (erule disjI1, erule disjI2 [OF disjI2 [OF disjI1]])
    next
      case nw
      from network [OF nw] show ?thesis
        by (elim disjE) (erule disjI1, erule disjI2 [OF disjI2 [OF disjI2]])
    next
      case pl
      from plain [OF pl] show ?thesis by (rule disjI1)
    qed
  qed
  have names: "set filterNames =
       {''id'', ''name'', ''label'', ''status'', ''until'', ''network'', ''ctr-ids'',
        ''ctr-names'', ''ctr-number'', ''ctr-status''}"
    unfolding filterNames_def by (simp add: insert_commute)
  have count: "length filterNames = 10" and dist: "distinct filterNames"
    by (simp_all add: filterNames_def)
  show ?thesis
    apply (intro conjI)
        apply (rule unknown)
       apply (rule known)
      apply (rule names)
     apply (rule count)
    apply (rule dist)
    done
qed

text \<open>
  The message for the filter name \<open>bogus\<close>: it is \<open>bogus is an invalid filter\<close>, not
  \<open>invalid filter: bogus\<close>.
\<close>

theorem unknown_filter_message_counterexample:
  "GeneratePodFilterFunc sample_ext ''bogus'' [] sample_runtime =
     Inl (ErrorString ''bogus is an invalid filter'')
   \<and> GeneratePodFilterFunc sample_ext ''bogus'' [] sample_runtime \<noteq>
     Inl (ErrorString ''invalid filter: bogus'')"
  by (simp add: GeneratePodFilterFunc_def)

text \<open>The same on the concrete pod and collaborators.\<close>

theorem unknown_filter_message_witness:
  "''bogus'' \<notin> set filterNames
   \<and> GeneratePodFilterFunc sample_ext ''bogus'' [''x''] sample_runtime =
       Inl (ErrorString ''bogus is an invalid filter'')
   \<and> ''network'' \<in> set filterNames
   \<and> GeneratePodFilterFunc sample_ext ''network'' [''locked''] sample_runtime =
       Inl (ErrorString ''database is locked'')
   \<and> ''id'' \<in> set filterNames
   \<and> GeneratePodFilterFunc sample_ext ''id'' [''x''] sample_runtime =
       Inr (idFilter sample_ext [''x''])"
proof -
  have a: "''bogus'' \<notin> set filterNames"
    by (simp add: filterNames_def)
  have b: "GeneratePodFilterFunc sample_ext ''bogus'' [''x''] sample_runtime =
       Inl (ErrorString ''bogus is an invalid filter'')"
    using unknown_filter_message [of "''bogus''" sample_ext "[''x'']" sample_runtime] a
    by simp
  have c: "''network'' \<in> set filterNames" "''id'' \<in> set filterNames"
    by (simp_all add: filterNames_def)
  have d: "GeneratePodFilterFunc sample_ext ''network'' [''locked''] sample_runtime =
       Inl (ErrorString ''database is locked'')"
    by (simp add: GeneratePodFilterFunc_def sample_defs)
  have e: "GeneratePodFilterFunc sample_ext ''id'' [''x''] sample_runtime =
       Inr (idFilter sample_ext [''x''])"
    by (simp add: GeneratePodFilterFunc_def)
  from a b c d e show ?thesis by (intro conjI)
qed

text \<open>
  Claim C6 (status vocabularies). \<open>ctr-status\<close> compiles exactly when every value is
  one of created, running, paused, stopped, exited, unknown; otherwise the result is the
  error naming the first value outside the vocabulary, followed by
  \<open>is not a valid status\<close>. \<open>status\<close> compiles exactly when every value is one of
  stopped, running, paused, exited, dead, created, degraded; otherwise the error names the
  first value outside it, followed by \<open>is not a valid pod status\<close>.
\<close>

theorem status_vocabularies:
  "((\<exists>f. GeneratePodFilterFunc ext ''ctr-status'' filterValues r = Inr f) \<longleftrightarrow>
      set filterValues \<subseteq>
        {''created'', ''running'', ''paused'', ''stopped'', ''exited'', ''unknown''})
   \<and> (\<not> set filterValues \<subseteq>
          {''created'', ''running'', ''paused'', ''stopped'', ''exited'', ''unknown''} \<longrightarrow>
        (\<exists>pre v post. filterValues = pre @ v # post
           \<and> set pre \<subseteq> {''created'', ''running'', ''paused'', ''stopped'', ''exited'', ''unknown''}
           \<and> v \<notin> {''created'', ''running'', ''paused'', ''stopped'', ''exited'', ''unknown''}
           \<and> GeneratePodFilterFunc ext ''ctr-status'' filterValues r =
                Inl (ErrorString (v @ '' is not a valid status''))))
   \<and> ((\<exists>f. GeneratePodFilterFunc ext ''status'' filterValues r = Inr f) \<longleftrightarrow>
      set filterValues \<subseteq>
        {''stopped'', ''running'', ''paused'', ''exited'', ''dead'', ''created'', ''degraded''})
   \<and> (\<not> set filterValues \<subseteq>
          {''stopped'', ''running'', ''paused'', ''exited'', ''dead'', ''created'', ''degraded''} \<longrightarrow>
        (\<exists>pre v post. filterValues = pre @ v # post
           \<and> set pre \<subseteq> {''stopped'', ''running'', ''paused'', ''exited'', ''dead'', ''created'', ''degraded''}
           \<and> v \<notin> {''stopped'', ''running'', ''paused'', ''exited'', ''dead'', ''created'', ''degraded''}
           \<and> GeneratePodFilterFunc ext ''status'' filterValues r =
                Inl (ErrorString (v @ '' is not a valid pod status''))))"
proof -
  have cv: "set ctrStatusVocabulary =
      {''created'', ''running'', ''paused'', ''stopped'', ''exited'', ''unknown''}"
    by (simp add: ctrStatusVocabulary_def)
  have pv: "set podStatusVocabulary =
      {''stopped'', ''running'', ''paused'', ''exited'', ''dead'', ''created'', ''degraded''}"
    by (simp add: podStatusVocabulary_def)
  have c_ok: "(\<exists>f. GeneratePodFilterFunc ext ''ctr-status'' filterValues r = Inr f) \<longleftrightarrow>
      set filterValues \<subseteq> set ctrStatusVocabulary"
    using ctrStatusCheck_None [of filterValues]
    by (cases "ctrStatusCheck filterValues") (simp_all add: GeneratePodFilterFunc_def)
  have c_err: "\<not> set filterValues \<subseteq> set ctrStatusVocabulary \<longrightarrow>
        (\<exists>pre v post. filterValues = pre @ v # post
           \<and> set pre \<subseteq> set ctrStatusVocabulary \<and> v \<notin> set ctrStatusVocabulary
           \<and> GeneratePodFilterFunc ext ''ctr-status'' filterValues r =
                Inl (ErrorString (v @ '' is not a valid status'')))"
  proof
    assume "\<not> set filterValues \<subseteq> set ctrStatusVocabulary"
    then obtain e where e: "ctrStatusCheck filterValues = Some e"
      using ctrStatusCheck_None [of filterValues] by (cases "ctrStatusCheck filterValues") auto
    from ctrStatusCheck_Some [OF e] obtain pre v post where
      h: "filterValues = pre @ v # post" "set pre \<subseteq> set ctrStatusVocabulary"
         "v \<notin> set ctrStatusVocabulary" "e = ErrorString (v @ '' is not a valid status'')"
      by blast
    from e h(4) have "GeneratePodFilterFunc ext ''ctr-status'' filterValues r =
        Inl (ErrorString (v @ '' is not a valid status''))"
      by (simp add: GeneratePodFilterFunc_def)
    with h show "\<exists>pre v post. filterValues = pre @ v # post
           \<and> set pre \<subseteq> set ctrStatusVocabulary \<and> v \<notin> set ctrStatusVocabulary
           \<and> GeneratePodFilterFunc ext ''ctr-status'' filterValues r =
                Inl (ErrorString (v @ '' is not a valid status''))"
      by blast
  qed
  have p_ok: "(\<exists>f. GeneratePodFilterFunc ext ''status'' filterValues r = Inr f) \<longleftrightarrow>
      set filterValues \<subseteq> set podStatusVocabulary"
    using podStatusCheck_None [of filterValues]
    by (cases "podStatusCheck filterValues") (simp_all add: GeneratePodFilterFunc_def)
  have p_err: "\<not> set filterValues \<subseteq> set podStatusVocabulary \<longrightarrow>
        (\<exists>pre v post. filterValues = pre @ v # post
           \<and> set pre \<subseteq> set podStatusVocabulary \<and> v \<notin> set podStatusVocabulary
           \<and> GeneratePodFilterFunc ext ''status'' filterValues r =
                Inl (ErrorString (v @ '' is not a valid pod status'')))"
  proof
    assume "\<not> set filterValues \<subseteq> set podStatusVocabulary"
    then obtain e where e: "podStatusCheck filterValues = Some e"
      using podStatusCheck_None [of filterValues] by (cases "podStatusCheck filterValues") auto
    from podStatusCheck_Some [OF e] obtain pre v post where
      h: "filterValues = pre @ v # post" "set pre \<subseteq> set podStatusVocabulary"
         "v \<notin> set podStatusVocabulary" "e = ErrorString (v @ '' is not a valid pod status'')"
      by blast
    from e h(4) have "GeneratePodFilterFunc ext ''status'' filterValues r =
        Inl (ErrorString (v @ '' is not a valid pod status''))"
      by (simp add: GeneratePodFilterFunc_def)
    with h show "\<exists>pre v post. filterValues = pre @ v # post
           \<and> set pre \<subseteq> set podStatusVocabulary \<and> v \<notin> set podStatusVocabulary
           \<and> GeneratePodFilterFunc ext ''status'' filterValues r =
                Inl (ErrorString (v @ '' is not a valid pod status''))"
      by blast
  qed
  show ?thesis
    apply (intro conjI)
       apply (rule c_ok [unfolded cv])
      apply (rule c_err [unfolded cv])
     apply (rule p_ok [unfolded pv])
    apply (rule p_err [unfolded pv])
    done
qed

text \<open>The same on the concrete pod and collaborators.\<close>

theorem status_vocabularies_witness:
  "(\<exists>f. GeneratePodFilterFunc sample_ext ''ctr-status'' [''running'', ''stopped''] sample_runtime = Inr f)
   \<and> GeneratePodFilterFunc sample_ext ''ctr-status'' [''running'', ''dead'', ''nope''] sample_runtime =
       Inl (ErrorString ''dead is not a valid status'')
   \<and> (\<exists>f. GeneratePodFilterFunc sample_ext ''status'' [''dead'', ''degraded''] sample_runtime = Inr f)
   \<and> GeneratePodFilterFunc sample_ext ''status'' [''running'', ''unknown''] sample_runtime =
       Inl (ErrorString ''unknown is not a valid pod status'')"
proof -
  have a: "\<exists>f. GeneratePodFilterFunc sample_ext ''ctr-status'' [''running'', ''stopped''] sample_runtime = Inr f"
    using status_vocabularies [of sample_ext "[''running'', ''stopped'']" sample_runtime]
    by simp
  have b: "\<exists>f. GeneratePodFilterFunc sample_ext ''status'' [''dead'', ''degraded''] sample_runtime = Inr f"
    using status_vocabularies [of sample_ext "[''dead'', ''degraded'']" sample_runtime]
    by simp
  have c: "GeneratePodFilterFunc sample_ext ''ctr-status'' [''running'', ''dead'', ''nope''] sample_runtime =
       Inl (ErrorString ''dead is not a valid status'')"
    by (simp add: GeneratePodFilterFunc_def ctrStatusVocabulary_def)
  have d: "GeneratePodFilterFunc sample_ext ''status'' [''running'', ''unknown''] sample_runtime =
       Inl (ErrorString ''unknown is not a valid pod status'')"
    by (simp add: GeneratePodFilterFunc_def podStatusVocabulary_def)
  from a c b d show ?thesis by (intro conjI)
qed

text \<open>
  Claim C7 (two status families, two normalizations). Under \<open>ctr-status\<close> the predicate
  holds exactly when some container state, with \<open>ContainerStateConfigured\<close> read as
  \<open>created\<close>, \<open>ContainerStateStopped\<close> read as \<open>exited\<close> and every other state
  printed by \<^verbatim>\<open>String()\<close>, equals some value, with the value \<open>stopped\<close> read as
  \<open>exited\<close>. So a configured container matches the value \<open>created\<close> and a stopped
  container matches the value \<open>stopped\<close>. Under \<open>status\<close> the predicate holds exactly
  when the pod status in lower case is one of the values as they are, so the pod status
  \<open>exited\<close> does not match the value \<open>stopped\<close>.
\<close>

theorem status_normalization:
  "(GeneratePodFilterFunc ext ''ctr-status'' filterValues r = Inr f \<and> pod_Status p = Inr sts \<longrightarrow>
      f p = (\<exists>st\<in>snd ` set sts. \<exists>v\<in>set filterValues.
               (if st = ContainerStateConfigured then ''created''
                else if st = ContainerStateStopped then ''exited''
                else ContainerStatus_String ext st)
               = (if v = ''stopped'' then ''exited'' else v)))
   \<and> (GeneratePodFilterFunc ext ''status'' filterValues r = Inr g \<and>
        pod_GetPodStatus p = Inr status \<longrightarrow>
      g p = (ToLower status \<in> set filterValues))
   \<and> (\<exists>f. GeneratePodFilterFunc ext ''ctr-status'' [''created''] r = Inr f \<and>
        (\<forall>p sts. pod_Status p = Inr sts \<and> ContainerStateConfigured \<in> snd ` set sts \<longrightarrow> f p))
   \<and> (\<exists>f. GeneratePodFilterFunc ext ''ctr-status'' [''stopped''] r = Inr f \<and>
        (\<forall>p sts. pod_Status p = Inr sts \<and> ContainerStateStopped \<in> snd ` set sts \<longrightarrow> f p))
   \<and> (\<exists>g. GeneratePodFilterFunc ext ''status'' [''stopped''] r = Inr g \<and>
        (\<forall>p. pod_GetPodStatus p = Inr ''exited'' \<longrightarrow> \<not> g p))"
proof -
  have general_ctr:
    "GeneratePodFilterFunc ext ''ctr-status'' filterValues r = Inr f \<and> pod_Status p = Inr sts \<longrightarrow>
      f p = (\<exists>st\<in>snd ` set sts. \<exists>v\<in>set filterValues.
               (if st = ContainerStateConfigured then ''created''
                else if st = ContainerStateStopped then ''exited''
                else ContainerStatus_String ext st)
               = (if v = ''stopped'' then ''exited'' else v))"
  proof (intro impI, elim conjE)
    assume g: "GeneratePodFilterFunc ext ''ctr-status'' filterValues r = Inr f"
      and s: "pod_Status p = Inr sts"
    from g have f: "f = ctrStatusFilter ext filterValues"
      by (simp add: GeneratePodFilterFunc_def split: option.splits)
    show "f p = (\<exists>st\<in>snd ` set sts. \<exists>v\<in>set filterValues.
               (if st = ContainerStateConfigured then ''created''
                else if st = ContainerStateStopped then ''exited''
                else ContainerStatus_String ext st)
               = (if v = ''stopped'' then ''exited'' else v))"
      unfolding f ctrStatusFilter_iff [OF s] ctrStatusState_def by (rule refl)
  qed
  have general_pod:
    "GeneratePodFilterFunc ext ''status'' filterValues r = Inr g \<and>
        pod_GetPodStatus p = Inr status \<longrightarrow>
      g p = (ToLower status \<in> set filterValues)"
  proof (intro impI, elim conjE)
    assume g: "GeneratePodFilterFunc ext ''status'' filterValues r = Inr g"
      and s: "pod_GetPodStatus p = Inr status"
    from g have f: "g = podStatusFilter filterValues"
      by (simp add: GeneratePodFilterFunc_def split: option.splits)
    show "g p = (ToLower status \<in> set filterValues)"
      unfolding f by (simp add: podStatusFilter_def s podStatusLoop_iff)
  qed
  have created: "\<exists>f. GeneratePodFilterFunc ext ''ctr-status'' [''created''] r = Inr f \<and>
        (\<forall>p sts. pod_Status p = Inr sts \<and> ContainerStateConfigured \<in> snd ` set sts \<longrightarrow> f p)"
  proof -
    have "GeneratePodFilterFunc ext ''ctr-status'' [''created''] r =
        Inr (ctrStatusFilter ext [''created''])"
      by (simp add: GeneratePodFilterFunc_def ctrStatusVocabulary_def)
    moreover have "\<forall>p sts. pod_Status p = Inr sts \<and> ContainerStateConfigured \<in> snd ` set sts
        \<longrightarrow> ctrStatusFilter ext [''created''] p"
      by (force simp: ctrStatusFilter_iff ctrStatusState_def)
    ultimately show ?thesis by (intro exI conjI)
  qed
  have stopped: "\<exists>f. GeneratePodFilterFunc ext ''ctr-status'' [''stopped''] r = Inr f \<and>
        (\<forall>p sts. pod_Status p = Inr sts \<and> ContainerStateStopped \<in> snd ` set sts \<longrightarrow> f p)"
  proof -
    have "GeneratePodFilterFunc ext ''ctr-status'' [''stopped''] r =
        Inr (ctrStatusFilter ext [''stopped''])"
      by (simp add: GeneratePodFilterFunc_def ctrStatusVocabulary_def)
    moreover have "\<forall>p sts. pod_Status p = Inr sts \<and> ContainerStateStopped \<in> snd ` set sts
        \<longrightarrow> ctrStatusFilter ext [''stopped''] p"
      by (force simp: ctrStatusFilter_iff ctrStatusState_def)
    ultimately show ?thesis by (intro exI conjI)
  qed
  have exited: "\<exists>g. GeneratePodFilterFunc ext ''status'' [''stopped''] r = Inr g \<and>
        (\<forall>p. pod_GetPodStatus p = Inr ''exited'' \<longrightarrow> \<not> g p)"
  proof -
    have "GeneratePodFilterFunc ext ''status'' [''stopped''] r =
        Inr (podStatusFilter [''stopped''])"
      by (simp add: GeneratePodFilterFunc_def podStatusVocabulary_def)
    moreover have "\<forall>p. pod_GetPodStatus p = Inr ''exited'' \<longrightarrow> \<not> podStatusFilter [''stopped''] p"
      by (simp add: podStatusFilter_def ToLower_def toLower_byte_def)
    ultimately show ?thesis by (intro exI conjI)
  qed
  show ?thesis
    apply (intro conjI)
        apply (rule general_ctr)
       apply (rule general_pod)
      apply (rule created)
     apply (rule stopped)
    apply (rule exited)
    done
qed

text \<open>The same on the concrete pod and collaborators.\<close>

theorem status_normalization_witness:
  "pod_Status sample_pod =
     Inr [(''abc111'', ContainerStateRunning), (''def222'', ContainerStateConfigured),
          (''0123ff'', ContainerStateStopped)]
   \<and> pod_GetPodStatus sample_pod = Inr ''Exited''
   \<and> GeneratePodFilterFunc sample_ext ''ctr-status'' [''created''] sample_runtime =
       Inr (ctrStatusFilter sample_ext [''created''])
   \<and> ctrStatusFilter sample_ext [''created''] sample_pod
   \<and> GeneratePodFilterFunc sample_ext ''ctr-status'' [''stopped''] sample_runtime =
       Inr (ctrStatusFilter sample_ext [''stopped''])
   \<and> ctrStatusFilter sample_ext [''stopped''] sample_pod
   \<and> GeneratePodFilterFunc sample_ext ''status'' [''stopped''] sample_runtime =
       Inr (podStatusFilter [''stopped''])
   \<and> \<not> podStatusFilter [''stopped''] sample_pod
   \<and> GeneratePodFilterFunc sample_ext ''status'' [''exited''] sample_runtime =
       Inr (podStatusFilter [''exited''])
   \<and> podStatusFilter [''exited''] sample_pod"
proof -
  have s: "pod_Status sample_pod =
     Inr [(''abc111'', ContainerStateRunning), (''def222'', ContainerStateConfigured),
          (''0123ff'', ContainerStateStopped)]"
    by (simp add: sample_defs)
  have t: "pod_GetPodStatus sample_pod = Inr ''Exited''"
    by (simp add: sample_defs)
  have g1: "GeneratePodFilterFunc sample_ext ''ctr-status'' [''created''] sample_runtime =
       Inr (ctrStatusFilter sample_ext [''created''])"
    by (simp add: GeneratePodFilterFunc_def ctrStatusVocabulary_def)
  have g2: "GeneratePodFilterFunc sample_ext ''ctr-status'' [''stopped''] sample_runtime =
       Inr (ctrStatusFilter sample_ext [''stopped''])"
    by (simp add: GeneratePodFilterFunc_def ctrStatusVocabulary_def)
  have g3: "GeneratePodFilterFunc sample_ext ''status'' [''stopped''] sample_runtime =
       Inr (podStatusFilter [''stopped''])"
    by (simp add: GeneratePodFilterFunc_def podStatusVocabulary_def)
  have g4: "GeneratePodFilterFunc sample_ext ''status'' [''exited''] sample_runtime =
       Inr (podStatusFilter [''exited''])"
    by (simp add: GeneratePodFilterFunc_def podStatusVocabulary_def)
  have p1: "ctrStatusFilter sample_ext [''created''] sample_pod"
    using status_normalization [of sample_ext "[''created'']" sample_runtime
        "ctrStatusFilter sample_ext [''created'']" sample_pod _ "podStatusFilter [''created'']" "''Exited''"]
      g1 s
    by simp
  have p2: "ctrStatusFilter sample_ext [''stopped''] sample_pod"
    using status_normalization [of sample_ext "[''stopped'']" sample_runtime
        "ctrStatusFilter sample_ext [''stopped'']" sample_pod _ "podStatusFilter [''stopped'']" "''Exited''"]
      g2 s
    by simp
  have p3: "\<not> podStatusFilter [''stopped''] sample_pod"
    using status_normalization [of sample_ext "[''stopped'']" sample_runtime
        "ctrStatusFilter sample_ext [''stopped'']" sample_pod _ "podStatusFilter [''stopped'']" "''Exited''"]
      g3 t
    by (simp add: string_defs)
  have p4: "podStatusFilter [''exited''] sample_pod"
    using status_normalization [of sample_ext "[''exited'']" sample_runtime
        "ctrStatusFilter sample_ext [''exited'']" sample_pod _ "podStatusFilter [''exited'']" "''Exited''"]
      g4 t
    by (simp add: string_defs)
  from s t g1 p1 g2 p2 g3 p3 g4 p4 show ?thesis by (intro conjI)
qed

text \<open>
  Claim C8 (\<open>id\<close>: prefix or regular expression). The filter always compiles, and the
  predicate holds exactly when some value matches: a value made of hex digits only (the
  empty value included) matches when the pod id, as it is, starts with the value in
  lower case; a value with any other byte never goes that way and matches when
  \<^verbatim>\<open>regexp.MatchString\<close> succeeds and reports a match in the pod id.
\<close>

theorem id_prefix_or_regex:
  "\<exists>f. GeneratePodFilterFunc ext ''id'' filterValues r = Inr f \<and>
     (\<forall>p. f p =
        (\<exists>want\<in>set filterValues.
           if set want \<subseteq> set ''0123456789abcdefABCDEF''
           then prefix (ToLower want) (pod_ID p)
           else regexp_MatchString ext want (pod_ID p) = Inr True))"
proof -
  have "GeneratePodFilterFunc ext ''id'' filterValues r = Inr (idFilter ext filterValues)"
    by (simp add: GeneratePodFilterFunc_def)
  moreover have "\<forall>p. idFilter ext filterValues p =
        (\<exists>want\<in>set filterValues.
           if set want \<subseteq> set ''0123456789abcdefABCDEF''
           then prefix (ToLower want) (pod_ID p)
           else regexp_MatchString ext want (pod_ID p) = Inr True)"
    unfolding idFilter_def idLoop_iff NotHexRegex_iff
    by (intro allI bex_cong refl) simp
  ultimately show ?thesis by (intro exI conjI)
qed

text \<open>The same on the concrete pod and collaborators.\<close>

theorem id_prefix_or_regex_witness:
  "pod_ID sample_pod = ''abcdef0123''
   \<and> idFilter sample_ext [''abc''] sample_pod
   \<and> idFilter sample_ext [''ABC''] sample_pod
   \<and> idFilter sample_ext [''''] sample_pod
   \<and> \<not> idFilter sample_ext [''bcd''] sample_pod
   \<and> idFilter sample_ext [''bcd.*''] sample_pod
   \<and> idFilter sample_ext [''abc.*''] sample_pod
   \<and> \<not> idFilter sample_ext [''abd.*''] sample_pod
   \<and> idFilter sample_ext [''['', ''fff'', ''abc''] sample_pod"
proof -
  have i: "pod_ID sample_pod = ''abcdef0123''"
    by (simp add: sample_defs)
  have g: "\<And>vs. GeneratePodFilterFunc sample_ext ''id'' vs sample_runtime =
      Inr (idFilter sample_ext vs)"
    by (simp add: GeneratePodFilterFunc_def)
  have sem: "\<And>vs. idFilter sample_ext vs sample_pod =
        (\<exists>want\<in>set vs.
           if set want \<subseteq> set ''0123456789abcdefABCDEF''
           then prefix (ToLower want) ''abcdef0123''
           else regexp_MatchString sample_ext want ''abcdef0123'' = Inr True)"
    using id_prefix_or_regex [of sample_ext _ sample_runtime]
    by (simp add: g i)
  have a: "idFilter sample_ext [''abc''] sample_pod"
    unfolding sem by (simp add: string_defs)
  have b: "idFilter sample_ext [''ABC''] sample_pod"
    unfolding sem by (simp add: string_defs)
  have c: "idFilter sample_ext [''''] sample_pod"
    unfolding sem by (simp add: string_defs)
  have d: "\<not> idFilter sample_ext [''bcd''] sample_pod"
    unfolding sem by (simp add: string_defs)
  have e: "idFilter sample_ext [''bcd.*''] sample_pod"
    unfolding sem by (simp add: string_defs sample_defs)
  have f: "idFilter sample_ext [''abc.*''] sample_pod"
    unfolding sem by (simp add: string_defs sample_defs)
  have h: "\<not> idFilter sample_ext [''abd.*''] sample_pod"
    unfolding sem by (simp add: string_defs sample_defs)
  have k: "idFilter sample_ext [''['', ''fff'', ''abc''] sample_pod"
    unfolding sem by (simp add: string_defs sample_defs)
  from i a b c d e f h k show ?thesis by (intro conjI)
qed

text \<open>
  Claim C9 (\<open>network\<close> resolves its values before the closure). When every error of the
  registry on the values is "no such network", the filter compiles, and the predicate
  holds exactly when the infra container is found, its networks are enumerated, and one of
  them is among the names of the networks the registry found for the values. When no value
  was found the predicate is false on every pod. When the registry fails on a value with
  another error, and on no earlier value, that error is the result.
\<close>

theorem network_resolution:
  "((\<forall>v\<in>set filterValues. \<forall>e. NetworkInspect r v = Inl e \<longrightarrow> errors_Is e ErrNoSuchNetwork) \<longrightarrow>
      (\<exists>f. GeneratePodFilterFunc ext ''network'' filterValues r = Inr f
         \<and> (\<forall>p. f p =
              (case pod_InfraContainer p of
                 Inl e \<Rightarrow> False
               | Inr infra \<Rightarrow>
                   (case ctr_Networks infra of
                      Inl e \<Rightarrow> False
                    | Inr networks \<Rightarrow>
                        \<exists>net\<in>set networks.
                          net \<in> set (concat (map (\<lambda>v. case NetworkInspect r v of
                                                        Inr n \<Rightarrow> [net_Name n]
                                                      | Inl e \<Rightarrow> []) filterValues)))))
         \<and> (concat (map (\<lambda>v. case NetworkInspect r v of
                              Inr n \<Rightarrow> [net_Name n] | Inl e \<Rightarrow> []) filterValues) = []
              \<longrightarrow> (\<forall>p. \<not> f p))))
   \<and> (filterValues = pre @ v # post
        \<and> (\<forall>u\<in>set pre. \<forall>e'. NetworkInspect r u = Inl e' \<longrightarrow> errors_Is e' ErrNoSuchNetwork)
        \<and> NetworkInspect r v = Inl e \<and> \<not> errors_Is e ErrNoSuchNetwork \<longrightarrow>
      GeneratePodFilterFunc ext ''network'' filterValues r = Inl e)"
proof -
  let ?names = "concat (map (\<lambda>v. case NetworkInspect r v of
                              Inr n \<Rightarrow> [net_Name n] | Inl e \<Rightarrow> []) filterValues)"
  have ok: "(\<forall>v\<in>set filterValues. \<forall>e. NetworkInspect r v = Inl e \<longrightarrow> errors_Is e ErrNoSuchNetwork) \<longrightarrow>
      (\<exists>f. GeneratePodFilterFunc ext ''network'' filterValues r = Inr f
         \<and> (\<forall>p. f p =
              (case pod_InfraContainer p of
                 Inl e \<Rightarrow> False
               | Inr infra \<Rightarrow>
                   (case ctr_Networks infra of
                      Inl e \<Rightarrow> False
                    | Inr networks \<Rightarrow> \<exists>net\<in>set networks. net \<in> set ?names)))
         \<and> (?names = [] \<longrightarrow> (\<forall>p. \<not> f p)))"
  proof
    assume a: "\<forall>v\<in>set filterValues. \<forall>e. NetworkInspect r v = Inl e \<longrightarrow> errors_Is e ErrNoSuchNetwork"
    have res: "resolveNetNames r filterValues [] = Inr ?names"
      using resolveNetNames_ok [OF a, of "[]"] by simp
    have g: "GeneratePodFilterFunc ext ''network'' filterValues r = Inr (networkFilter ?names)"
      by (simp add: GeneratePodFilterFunc_def res)
    have sem: "\<forall>p. networkFilter ?names p =
              (case pod_InfraContainer p of
                 Inl e \<Rightarrow> False
               | Inr infra \<Rightarrow>
                   (case ctr_Networks infra of
                      Inl e \<Rightarrow> False
                    | Inr networks \<Rightarrow> \<exists>net\<in>set networks. net \<in> set ?names))"
      by (auto simp: networkFilter_def networkLoop_iff split: sum.splits)
    have none: "?names = [] \<longrightarrow> (\<forall>p. \<not> networkFilter ?names p)"
    proof
      assume e: "?names = []"
      show "\<forall>p. \<not> networkFilter ?names p"
        unfolding e by (auto simp: networkFilter_def networkLoop_iff split: sum.splits)
    qed
    from g sem none
    show "\<exists>f. GeneratePodFilterFunc ext ''network'' filterValues r = Inr f
         \<and> (\<forall>p. f p =
              (case pod_InfraContainer p of
                 Inl e \<Rightarrow> False
               | Inr infra \<Rightarrow>
                   (case ctr_Networks infra of
                      Inl e \<Rightarrow> False
                    | Inr networks \<Rightarrow> \<exists>net\<in>set networks. net \<in> set ?names)))
         \<and> (?names = [] \<longrightarrow> (\<forall>p. \<not> f p))"
      by (intro exI conjI)
  qed
  have err: "filterValues = pre @ v # post
        \<and> (\<forall>u\<in>set pre. \<forall>e'. NetworkInspect r u = Inl e' \<longrightarrow> errors_Is e' ErrNoSuchNetwork)
        \<and> NetworkInspect r v = Inl e \<and> \<not> errors_Is e ErrNoSuchNetwork \<longrightarrow>
      GeneratePodFilterFunc ext ''network'' filterValues r = Inl e"
  proof
    assume a: "filterValues = pre @ v # post
        \<and> (\<forall>u\<in>set pre. \<forall>e'. NetworkInspect r u = Inl e' \<longrightarrow> errors_Is e' ErrNoSuchNetwork)
        \<and> NetworkInspect r v = Inl e \<and> \<not> errors_Is e ErrNoSuchNetwork"
    then have "resolveNetNames r (pre @ v # post) [] = Inl e"
      by (intro resolveNetNames_error) simp_all
    with a show "GeneratePodFilterFunc ext ''network'' filterValues r = Inl e"
      by (simp add: GeneratePodFilterFunc_def)
  qed
  show ?thesis
    apply (intro conjI)
     apply (rule ok)
    apply (rule err)
    done
qed

text \<open>The same on the concrete pod and collaborators.\<close>

theorem network_resolution_witness:
  "NetworkInspect sample_runtime ''ghost'' =
     Inl (WrapError ''unable to find network with name or ID ghost'' ErrNoSuchNetwork)
   \<and> NetworkInspect sample_runtime ''locked'' = Inl (ErrorString ''database is locked'')
   \<and> NetworkInspect sample_runtime ''bridge'' =
       Inr \<lparr> net_Name = ''bridge'', net_ID = ''2f259bab93aa'' \<rparr>
   \<and> GeneratePodFilterFunc sample_ext ''network'' [''ghost'', ''2f259bab93aa''] sample_runtime =
       Inr (networkFilter [''bridge''])
   \<and> networkFilter [''bridge''] sample_pod
   \<and> \<not> networkFilter [''bridge''] broken_pod
   \<and> \<not> networkFilter [''bridge''] pod_infra_without_networks
   \<and> GeneratePodFilterFunc sample_ext ''network'' [''ghost''] sample_runtime =
       Inr (networkFilter [])
   \<and> \<not> networkFilter [] sample_pod
   \<and> GeneratePodFilterFunc sample_ext ''network'' [''ghost'', ''locked'', ''bridge''] sample_runtime =
       Inl (ErrorString ''database is locked'')"
proof -
  have i1: "NetworkInspect sample_runtime ''ghost'' =
     Inl (WrapError ''unable to find network with name or ID ghost'' ErrNoSuchNetwork)"
    by (simp add: sample_defs)
  have i2: "NetworkInspect sample_runtime ''locked'' = Inl (ErrorString ''database is locked'')"
    by (simp add: sample_defs)
  have i3: "NetworkInspect sample_runtime ''bridge'' =
       Inr \<lparr> net_Name = ''bridge'', net_ID = ''2f259bab93aa'' \<rparr>"
    by (simp add: sample_defs)
  have i4: "NetworkInspect sample_runtime ''2f259bab93aa'' =
       Inr \<lparr> net_Name = ''bridge'', net_ID = ''2f259bab93aa'' \<rparr>"
    by (simp add: sample_defs)
  have g1: "GeneratePodFilterFunc sample_ext ''network'' [''ghost'', ''2f259bab93aa''] sample_runtime =
       Inr (networkFilter [''bridge''])"
    by (simp add: GeneratePodFilterFunc_def i1 i4)
  have g2: "GeneratePodFilterFunc sample_ext ''network'' [''ghost''] sample_runtime =
       Inr (networkFilter [])"
    by (simp add: GeneratePodFilterFunc_def i1)
  have h1: "\<forall>v\<in>set [''ghost'', ''2f259bab93aa''].
      \<forall>e. NetworkInspect sample_runtime v = Inl e \<longrightarrow> errors_Is e ErrNoSuchNetwork"
    by (simp add: i1 i4)
  have h2: "\<forall>v\<in>set [''ghost''].
      \<forall>e. NetworkInspect sample_runtime v = Inl e \<longrightarrow> errors_Is e ErrNoSuchNetwork"
    by (simp add: i1)
  have n1: "concat (map (\<lambda>v. case NetworkInspect sample_runtime v of
      Inr n \<Rightarrow> [net_Name n] | Inl e \<Rightarrow> []) [''ghost'', ''2f259bab93aa'']) = [''bridge'']"
    by (simp add: i1 i4)
  have n2: "concat (map (\<lambda>v. case NetworkInspect sample_runtime v of
      Inr n \<Rightarrow> [net_Name n] | Inl e \<Rightarrow> []) [''ghost'']) = []"
    by (simp add: i1)
  from network_resolution [where filterValues = "[''ghost'', ''2f259bab93aa'']"
      and r = sample_runtime and ext = sample_ext, THEN conjunct1, THEN mp, OF h1]
  have sem1: "\<forall>p. networkFilter [''bridge''] p =
              (case pod_InfraContainer p of
                 Inl e \<Rightarrow> False
               | Inr infra \<Rightarrow>
                   (case ctr_Networks infra of
                      Inl e \<Rightarrow> False
                    | Inr networks \<Rightarrow> \<exists>net\<in>set networks. net \<in> set [''bridge'']))"
    unfolding n1 g1 by simp
  have p1: "networkFilter [''bridge''] sample_pod"
    unfolding sem1 [rule_format] by (simp add: sample_pod_def ctr_infra_def)
  have p2: "\<not> networkFilter [''bridge''] broken_pod"
    unfolding sem1 [rule_format] by (simp add: broken_pod_def)
  have p2': "\<not> networkFilter [''bridge''] pod_infra_without_networks"
    unfolding sem1 [rule_format] by (simp add: pod_infra_without_networks_def)
  from network_resolution [where filterValues = "[''ghost'']"
      and r = sample_runtime and ext = sample_ext, THEN conjunct1, THEN mp, OF h2]
  obtain f where f1: "GeneratePodFilterFunc sample_ext ''network'' [''ghost''] sample_runtime = Inr f"
    and f3: "concat (map (\<lambda>v. case NetworkInspect sample_runtime v of
      Inr n \<Rightarrow> [net_Name n] | Inl e \<Rightarrow> []) [''ghost'']) = [] \<longrightarrow> (\<forall>p. \<not> f p)"
    by blast
  from f1 g2 have "f = networkFilter []" by simp
  with f3 n2 have "\<forall>p. \<not> networkFilter [] p" by blast
  then have p3: "\<not> networkFilter [] sample_pod" by (rule spec)
  have e: "GeneratePodFilterFunc sample_ext ''network'' [''ghost'', ''locked'', ''bridge''] sample_runtime =
       Inl (ErrorString ''database is locked'')"
    using network_resolution [where filterValues = "[''ghost'', ''locked'', ''bridge'']"
      and r = sample_runtime and ext = sample_ext and pre = "[''ghost'']" and v = "''locked''"
      and post = "[''bridge'']" and e = "ErrorString ''database is locked''"]
    by (simp add: i1 i2)
  from i1 i2 i3 g1 p1 p2 p2' g2 p3 e show ?thesis by (intro conjI)
qed

text \<open>
  Claim C10 (the empty value). The empty string has no non-hex byte, so it is tried as a
  prefix, and it is a prefix of every id: alone it selects the pod under \<open>ctr-ids\<close>,
  and under \<open>id\<close> it selects the pod wherever it stands among the values. Under
  \<open>ctr-ids\<close> a value before it that does not compile returns false first: with the
  values \<open>[\<close> and the empty string, a pod with three containers is rejected.
\<close>

theorem ctr_ids_empty_value_after_invalid_regex:
  "GeneratePodFilterFunc sample_ext ''ctr-ids'' [''['', ''''] sample_runtime =
     Inr (ctrIdsFilter sample_ext [''['', ''''])
   \<and> \<not> NotHexRegex_MatchString ''''
   \<and> pod_AllContainersByID sample_pod = Inr [''abc111'', ''def222'', ''0123ff'']
   \<and> ctrIdsFilter sample_ext [''['', ''''] sample_pod = False
   \<and> ctrIdsFilter sample_ext [''''] sample_pod = True
   \<and> ctrIdsFilter sample_ext [''''] empty_pod = False
   \<and> idFilter sample_ext [''['', ''''] sample_pod = True"
proof -
  have g: "GeneratePodFilterFunc sample_ext ''ctr-ids'' [''['', ''''] sample_runtime =
     Inr (ctrIdsFilter sample_ext [''['', ''''])"
    by (simp add: GeneratePodFilterFunc_def)
  have rest: "\<not> NotHexRegex_MatchString ''''
   \<and> pod_AllContainersByID sample_pod = Inr [''abc111'', ''def222'', ''0123ff'']
   \<and> ctrIdsFilter sample_ext [''['', ''''] sample_pod = False
   \<and> ctrIdsFilter sample_ext [''''] sample_pod = True
   \<and> ctrIdsFilter sample_ext [''''] empty_pod = False
   \<and> idFilter sample_ext [''['', ''''] sample_pod = True"
    by (simp add: sample_defs string_defs filter_defs)
  from g rest show ?thesis by (rule conjI)
qed

end
